theory Spec2Isabelle
  imports Main
begin

section \<open>Data model\<close>

text \<open>
  Python exceptions that the modelled code raises, catches or lets through.
  \<open>OtherException\<close> stands for every exception class that the handlers of
  \<open>realms_playerlist_prefixes\<close> do not name.
\<close>

datatype py_exception =
    DoesNotExist
  | AttributeError
  | ConfigurationError
  | KeyError
  | TimeoutError
  | ValueError
  | IndexError
  | OtherException

subsection \<open>The admission gate (main.py, \<open>global_checks\<close>)\<close>

text \<open>
  The part of \<open>commands.Context\<close> that \<open>global_checks\<close> reads:
  \<open>ctx.bot.is_ready()\<close>, \<open>ctx.bot.init_load\<close>, \<open>ctx.guild\<close> (its id, or
  \<open>None\<close> for a direct message), \<open>ctx.author.id\<close>, \<open>ctx.bot.owner\<close> (its id;
  the attribute is assigned at the end of \<open>on_init_load\<close>, so it can still be missing) and
  \<open>ctx.command.qualified_name\<close>.
\<close>

record command_context =
  bot_is_ready :: bool
  bot_init_load :: bool
  bot_owner :: "int option"
  ctx_guild :: "int option"
  ctx_author :: int
  command_qualified_name :: string

text \<open>
  \<open>DEV_GUILD_ID\<close> is read from the environment at start-up; it is the first argument.
  Reading \<open>ctx.bot.owner.id\<close> while the attribute is missing raises \<open>AttributeError\<close>.
\<close>

definition global_checks :: "int \<Rightarrow> command_context \<Rightarrow> py_exception + bool" where
  "global_checks dev_guild_id ctx =
     (if \<not> bot_is_ready ctx then Inr False
      else if bot_init_load ctx then Inr False
      else case ctx_guild ctx of
        None \<Rightarrow> Inr False
      | Some gid \<Rightarrow>
          (case bot_owner ctx of
             None \<Rightarrow> Inl AttributeError
           | Some oid \<Rightarrow>
               if ctx_author ctx = oid then Inr True
               else Inr (\<not> (gid = dev_guild_id
                             \<and> command_qualified_name ctx \<notin> set [''help'', ''ping'']))))"

subsection \<open>The embed validator (common/utils.py, \<open>embed_check\<close>)\<close>

text \<open>
  The part of \<open>nextcord.Embed\<close> that \<open>embed_check\<close> reads. \<open>embed_len\<close> is the value
  of \<open>len(embed)\<close>, which the library computes; \<open>author\<close> and \<open>footer\<close> are \<open>None\<close>
  when the embed has none (the library's proxy object is then falsy), and a name, text,
  title or description that was never set is \<open>None\<close>.
\<close>

record embed_field =
  field_name :: string
  field_value :: string

record embed_author =
  author_name :: "string option"

record embed_footer =
  footer_text :: "string option"

record embed =
  embed_len :: nat
  title :: "string option"
  description :: "string option"
  author :: "embed_author option"
  footer :: "embed_footer option"
  embed_fields :: "embed_field list"

text \<open>\<open>x and len(x) > n\<close> for an optional string: \<open>None\<close> and \<open>""\<close> are falsy.\<close>

definition longer_than :: "string option \<Rightarrow> nat \<Rightarrow> bool" where
  "longer_than x n = (case x of None \<Rightarrow> False | Some s \<Rightarrow> s \<noteq> [] \<and> length s > n)"

text \<open>The loop over \<open>embed.fields\<close>: the first field over a limit ends it with \<open>False\<close>.\<close>

fun fields_check :: "embed_field list \<Rightarrow> bool" where
  "fields_check [] = True"
| "fields_check (f # fs) =
     (if field_name f \<noteq> [] \<and> length (field_name f) > 1024 then False
      else if field_value f \<noteq> [] \<and> length (field_value f) > 2048 then False
      else fields_check fs)"

definition embed_check :: "embed \<Rightarrow> bool" where
  "embed_check e =
     (if embed_len e > 6000 then False
      else if longer_than (title e) 256 then False
      else if longer_than (description e) 4096 then False
      else if (case author e of None \<Rightarrow> False | Some a \<Rightarrow> longer_than (author_name a) 256)
        then False
      else if (case footer e of None \<Rightarrow> False | Some f \<Rightarrow> longer_than (footer_text f) 2048)
        then False
      else if embed_fields e \<noteq> [] then
        (if length (embed_fields e) > 25 then False else fields_check (embed_fields e))
      else True)"

text \<open>
  The size ceilings as the specification lists them; a part the payload does not have
  respects its ceiling.
\<close>

definition at_most :: "string option \<Rightarrow> nat \<Rightarrow> bool" where
  "at_most x n = (case x of None \<Rightarrow> True | Some s \<Rightarrow> length s \<le> n)"

definition embed_within_limits :: "embed \<Rightarrow> bool" where
  "embed_within_limits e \<longleftrightarrow>
     embed_len e \<le> 6000
     \<and> at_most (title e) 256
     \<and> at_most (description e) 4096
     \<and> (case author e of None \<Rightarrow> True | Some a \<Rightarrow> at_most (author_name a) 256)
     \<and> (case footer e of None \<Rightarrow> True | Some f \<Rightarrow> at_most (footer_text f) 2048)
     \<and> length (embed_fields e) \<le> 25
     \<and> list_all (\<lambda>f. length (field_name f) \<le> 1024 \<and> length (field_value f) \<le> 2048)
          (embed_fields e)"

subsection \<open>The prefix resolver (main.py, \<open>_get_prefixes\<close> and \<open>realms_playerlist_prefixes\<close>)\<close>

text \<open>
  \<open>bot.user\<close>: its id and the library's \<open>mention\<close> string. The library assigns
  \<open>bot.user\<close> at login, before any message is dispatched, so the resolver always finds it.
\<close>

record bot_user =
  user_id :: int
  user_mention :: string

text \<open>
  A \<open>GuildConfig\<close> row, by the two columns the modelled code reads. The store is the
  outcome of \<open>GuildConfig.get(guild_id=k)\<close> for every \<open>k\<close>: the row, or the
  exception it raises.
\<close>

record guild_config =
  guild_id :: int
  prefixes :: "string set"

type_synonym config_store = "int \<Rightarrow> py_exception + guild_config"

text \<open>
  The bot's state for the resolver: \<open>bot.user\<close>, the dictionary \<open>bot.cached_prefixes\<close>
  (a \<open>defaultdict(set)\<close>), and a count of the calls made to \<open>GuildConfig.get\<close> so far,
  which the code does not hold and the model keeps to tell a fetch from a cache hit.
\<close>

record realm_bot =
  user :: bot_user
  cached_prefixes :: "int \<rightharpoonup> string set"
  store_fetches :: nat

text \<open>\<open>msg.guild\<close>: the community's id, or \<open>None\<close> for a direct message.\<close>

record message =
  msg_guild :: "int option"

text \<open>\<open>str\<close> of a Python integer, as the f-string renders \<open>bot.user.id\<close>.\<close>

definition digit_char :: "nat \<Rightarrow> char" where
  "digit_char d = ''0123456789'' ! d"

fun str_nat :: "nat \<Rightarrow> string" where
  "str_nat n = (if n < 10 then [digit_char n] else str_nat (n div 10) @ [digit_char (n mod 10)])"

declare str_nat.simps [simp del]

definition str_int :: "int \<Rightarrow> string" where
  "str_int i = (if i < 0 then CHR ''-'' # str_nat (nat (- i)) else str_nat (nat i))"

text \<open>
  \<open>d[k]\<close> on a \<open>defaultdict(set)\<close>: a missing key is inserted with the empty set, which
  is returned.
\<close>

definition defaultdict_getitem ::
  "(int \<rightharpoonup> string set) \<Rightarrow> int \<Rightarrow> string set \<times> (int \<rightharpoonup> string set)" where
  "defaultdict_getitem d k = (case d k of Some v \<Rightarrow> (v, d) | None \<Rightarrow> ({}, d(k \<mapsto> {})))"

text \<open>
  \<open>_get_prefixes\<close>. The result is the returned set or the exception raised, with the
  bot's state afterwards. An empty cached set is falsy, so it counts as a miss.
\<close>

definition get_prefixes ::
  "config_store \<Rightarrow> realm_bot \<Rightarrow> message \<Rightarrow> (py_exception + string set) \<times> realm_bot" where
  "get_prefixes store b msg =
     (case msg_guild msg of
        None \<Rightarrow> (Inr {}, b)
      | Some gid \<Rightarrow>
          (case defaultdict_getitem (cached_prefixes b) gid of
             (cached, cache1) \<Rightarrow>
               if cached \<noteq> {} then (Inr cached, b\<lparr>cached_prefixes := cache1\<rparr>)
               else
                 (case store gid of
                    Inl e \<Rightarrow>
                      (Inl e, b\<lparr>cached_prefixes := cache1,
                                store_fetches := store_fetches b + 1\<rparr>)
                  | Inr config \<Rightarrow>
                      (Inr (prefixes config),
                       b\<lparr>cached_prefixes := cache1(gid \<mapsto> prefixes config),
                         store_fetches := store_fetches b + 1\<rparr>))))"

definition mention_prefixes :: "realm_bot \<Rightarrow> string set" where
  "mention_prefixes b =
     {user_mention (user b) @ '' '', ''<@!'' @ str_int (user_id (user b)) @ ''> ''}"

text \<open>
  \<open>realms_playerlist_prefixes\<close>: the \<open>except\<close> clauses in the order of the source; an
  exception of any other class propagates.
\<close>

definition realms_playerlist_prefixes ::
  "config_store \<Rightarrow> realm_bot \<Rightarrow> message \<Rightarrow> (py_exception + string set) \<times> realm_bot" where
  "realms_playerlist_prefixes store b msg =
     (case get_prefixes store b msg of
        (Inr custom_prefixes, b') \<Rightarrow> (Inr (mention_prefixes b \<union> custom_prefixes), b')
      | (Inl e, b') \<Rightarrow>
          if e = DoesNotExist then (Inr (mention_prefixes b \<union> {}), b')
          else if e = AttributeError then (Inr (mention_prefixes b \<union> {''!?''}), b')
          else if e = ConfigurationError then (Inr (mention_prefixes b \<union> {}), b')
          else if e = KeyError then (Inr (mention_prefixes b \<union> {}), b')
          else if e = TimeoutError then (Inr (mention_prefixes b \<union> {}), b')
          else (Inl e, b'))"

text \<open>The exception classes that the \<open>except\<close> clauses name.\<close>

definition handled :: "py_exception list" where
  "handled = [DoesNotExist, AttributeError, ConfigurationError, KeyError, TimeoutError]"

text \<open>
  The bot's state after a sequence of resolutions, one per inbound message, each with the
  store as it answers at that moment.
\<close>

fun resolve_all :: "realm_bot \<Rightarrow> (config_store \<times> message) list \<Rightarrow> realm_bot" where
  "resolve_all b [] = b"
| "resolve_all b ((store, msg) # calls) =
     resolve_all (snd (realms_playerlist_prefixes store b msg)) calls"

subsection \<open>The invocation context (common/utils.py, \<open>RealmContext.fetch_config\<close>)\<close>

text \<open>
  \<open>self.guild\<close> (its id, or \<open>None\<close>), the memo \<open>self.guild_config\<close> (a row object is
  truthy, so only \<open>None\<close> is falsy), and a count of the calls made to \<open>GuildConfig.get\<close>.
  \<open>__init__\<close> sets the memo to \<open>None\<close>.
\<close>

record realm_context =
  rc_guild :: "int option"
  rc_guild_config :: "guild_config option"
  rc_store_fetches :: nat

definition fetch_config ::
  "config_store \<Rightarrow> realm_context \<Rightarrow> (py_exception + guild_config) \<times> realm_context" where
  "fetch_config store self =
     (case rc_guild_config self of
        Some config \<Rightarrow> (Inr config, self)
      | None \<Rightarrow>
          (case rc_guild self of
             None \<Rightarrow> (Inl AttributeError, self)
           | Some gid \<Rightarrow>
               (case store gid of
                  Inl e \<Rightarrow> (Inl e, self\<lparr>rc_store_fetches := rc_store_fetches self + 1\<rparr>)
                | Inr config \<Rightarrow>
                    (Inr config,
                     self\<lparr>rc_guild_config := Some config,
                          rc_store_fetches := rc_store_fetches self + 1\<rparr>))))"

text \<open>
  Successive calls on one context, each with the store as it answers at that moment: the
  results in order, and the context afterwards.
\<close>

fun fetch_config_calls ::
  "realm_context \<Rightarrow> config_store list \<Rightarrow> (py_exception + guild_config) list \<times> realm_context" where
  "fetch_config_calls self [] = ([], self)"
| "fetch_config_calls self (store # stores) =
     (case fetch_config store self of
        (r, self') \<Rightarrow>
          (case fetch_config_calls self' stores of (rs, self'') \<Rightarrow> (r # rs, self'')))"

subsection \<open>The error pipeline (common/utils.py)\<close>

text \<open>
  \<open>str.splitlines\<close>, on strings whose characters are code points below 256: a line ends
  at \<open>\n\<close>, \<open>\r\<close>, \<open>\r\n\<close>, \<open>\v\<close>, \<open>\f\<close>, \<open>\x1c\<close>, \<open>\x1d\<close>,
  \<open>\x1e\<close> or \<open>\x85\<close>; the line ends are dropped, and no empty line follows the last
  one.
\<close>

definition is_line_boundary :: "char \<Rightarrow> bool" where
  "is_line_boundary c \<longleftrightarrow>
     c \<in> set [CHR 0x0A, CHR 0x0B, CHR 0x0C, CHR 0x0D, CHR 0x1C, CHR 0x1D, CHR 0x1E, CHR 0x85]"

fun splitlines_from :: "string \<Rightarrow> string \<Rightarrow> string list" where
  "splitlines_from cur [] = (if cur = [] then [] else [cur])"
| "splitlines_from cur (c # cs) =
     (if c = CHR 0x0D \<and> cs \<noteq> [] \<and> hd cs = CHR 0x0A then cur # splitlines_from [] (tl cs)
      else if is_line_boundary c then cur # splitlines_from [] cs
      else splitlines_from (cur @ [c]) cs)"

definition splitlines :: "string \<Rightarrow> string list" where
  "splitlines s = splitlines_from [] s"

text \<open>
  The comprehension \<open>[xs[x : x + n] for x in range(0, len(xs), n)]\<close> for a positive step
  \<open>n\<close>: the range holds the multiples of \<open>n\<close> below the length.
\<close>

definition slices :: "nat \<Rightarrow> 'a list \<Rightarrow> 'a list list" where
  "slices n xs = map (\<lambda>i. take n (drop (i * n) xs)) [0 ..< (length xs + n - 1) div n]"

text \<open>
  \<open>line_split\<close>. A zero step makes \<open>range\<close> raise \<open>ValueError\<close>; a negative one makes
  it empty.
\<close>

definition line_split :: "string \<Rightarrow> int \<Rightarrow> py_exception + string list list" where
  "line_split content split_by =
     (let content_split = splitlines content in
      if split_by = 0 then Inl ValueError
      else if split_by < 0 then Inr []
      else Inr (slices (nat split_by) content_split))"

definition string_split :: "string \<Rightarrow> string list" where
  "string_split s = slices 1950 s"

text \<open>
  The body of the loop in \<open>error_handle\<close>: the opener goes before the chunk's first
  line, then the closer after its last line. On an empty chunk \<open>chunks[i][0]\<close> raises
  \<open>IndexError\<close>.
\<close>

definition wrap_chunk :: "string list \<Rightarrow> py_exception + string list" where
  "wrap_chunk chunk =
     (if chunk = [] then Inl IndexError
      else
        let chunk1 = chunk[0 := ''```py\<newline>'' @ chunk ! 0];
            chunk2 = chunk1[length chunk1 - 1 := chunk1 ! (length chunk1 - 1) @ ''\<newline>```'']
        in Inr chunk2)"

fun wrap_chunks :: "string list list \<Rightarrow> py_exception + string list list" where
  "wrap_chunks [] = Inr []"
| "wrap_chunks (chunk # chunks) =
     (case wrap_chunk chunk of
        Inl e \<Rightarrow> Inl e
      | Inr chunk' \<Rightarrow>
          (case wrap_chunks chunks of
             Inl e \<Rightarrow> Inl e
           | Inr chunks' \<Rightarrow> Inr (chunk' # chunks')))"

text \<open>\<open>"\n".join(chunk)\<close>.\<close>

fun join_lines :: "string list \<Rightarrow> string" where
  "join_lines [] = []"
| "join_lines [l] = l"
| "join_lines (l # m # ls) = l @ CHR 0x0A # join_lines (m # ls)"

text \<open>
  \<open>final_chunks\<close> of \<open>error_handle\<close>, before the jump reference is inserted: the
  rendered text is split, every chunk wrapped, and every chunk joined.
\<close>

definition error_chunks :: "string \<Rightarrow> py_exception + string list" where
  "error_chunks rendered =
     (case line_split rendered 20 of
        Inl e \<Rightarrow> Inl e
      | Inr chunks \<Rightarrow>
          (case wrap_chunks chunks of
             Inl e \<Rightarrow> Inl e
           | Inr chunks' \<Rightarrow> Inr (map join_lines chunks')))"

text \<open>
  The part of the bot that the pipeline reads: \<open>bot.owner\<close>. The attribute is assigned
  last in \<open>on_init_load\<close>, so it is \<open>None\<close> here while it is missing, and reading it
  then raises \<open>AttributeError\<close>. When it is there, it is given by what \<open>owner.send\<close>
  does with a message text: \<open>None\<close> when the message is sent, or the exception raised.
\<close>

record pipeline_bot =
  owner :: "(string \<Rightarrow> py_exception option) option"

text \<open>
  The loop \<open>for chunk in str_chunks: await owner.send(chunk)\<close>: the messages sent, in
  order, and the exception that ended the loop, if one did. The chunks after a failed send
  are not sent.
\<close>

fun send_all ::
  "(string \<Rightarrow> py_exception option) \<Rightarrow> string list \<Rightarrow> string list \<times> py_exception option" where
  "send_all send [] = ([], None)"
| "send_all send (chunk # chunks) =
     (case send chunk of
        Some e \<Rightarrow> ([], Some e)
      | None \<Rightarrow> (case send_all send chunks of (sent, r) \<Rightarrow> (chunk # sent, r)))"

text \<open>
  \<open>msg_to_owner\<close>: the messages sent to the owner, in order, and the exception raised,
  if any. \<open>content\<close> is a string or a list of strings. With \<open>split\<close>, \<open>str(content)\<close>
  is cut into parts of 1950 characters (\<open>str\<close> of a list is Python's; it is the first
  argument); without, the content is iterated as it is, a string character by character.
\<close>

datatype content = Text string | Chunks "string list"

definition msg_to_owner ::
  "(string list \<Rightarrow> string) \<Rightarrow> pipeline_bot \<Rightarrow> content \<Rightarrow> bool
     \<Rightarrow> string list \<times> py_exception option" where
  "msg_to_owner str_of_list b content split =
     (case owner b of
        None \<Rightarrow> ([], Some AttributeError)
      | Some send \<Rightarrow>
          send_all send
            (if split then
               string_split (case content of Text s \<Rightarrow> s | Chunks cs \<Rightarrow> str_of_list cs)
             else
               (case content of Text s \<Rightarrow> map (\<lambda>c. [c]) s | Chunks cs \<Rightarrow> cs)))"

text \<open>
  The arguments of \<open>error_handle\<close>. Of the error: whether it is an
  \<open>aiohttp.ServerDisconnectedError\<close>, the text \<open>error_format(error)\<close> renders (the
  library's traceback), and \<open>str(error)\<close>. Of the context, when there is one: its class,
  \<open>ctx.message.jump_url\<close> when both attributes exist, and what sending the notice to it
  does (\<open>None\<close> when it is sent, or the exception raised).
\<close>

datatype ctx_kind = CommandContext | Interaction | OtherObject

record error_ctx =
  ctx_kind :: ctx_kind
  jump_url :: "string option"
  notice_raises :: "py_exception option"

record raised_error =
  server_disconnected :: bool
  error_format :: string
  error_str :: string

text \<open>
  What a call of \<open>error_handle\<close> does: the messages sent to the owner, in order, the
  notice sent to the context (the embed's description, by \<open>reply\<close> or by \<open>send\<close>), and
  the exception the call raises, if any. The log entry is left out.
\<close>

datatype ctx_message = Reply string | Send string

record delivery =
  to_owner :: "string list"
  to_ctx :: "ctx_message list"
  raised :: "py_exception option"

definition error_handle ::
  "(string list \<Rightarrow> string) \<Rightarrow> pipeline_bot \<Rightarrow> raised_error \<Rightarrow> error_ctx option
     \<Rightarrow> delivery" where
  "error_handle str_of_list b error ctx =
     (case
        (if server_disconnected error then Inr (Text ''Disconnected from server!'', True)
         else
           (case error_chunks (error_format error) of
              Inl e \<Rightarrow> Inl e
            | Inr final_chunks \<Rightarrow>
                Inr (Chunks
                      (case ctx of
                         None \<Rightarrow> final_chunks
                       | Some c \<Rightarrow>
                           (case jump_url c of
                              None \<Rightarrow> final_chunks
                            | Some url \<Rightarrow> (''Error on: '' @ url) # final_chunks)),
                     False)))
      of
        Inl e \<Rightarrow> \<lparr>to_owner = [], to_ctx = [], raised = Some e\<rparr>
      | Inr (to_send, split) \<Rightarrow>
          (case msg_to_owner str_of_list b to_send split of
             (sent, Some e) \<Rightarrow> \<lparr>to_owner = sent, to_ctx = [], raised = Some e\<rparr>
           | (sent, None) \<Rightarrow>
               (case ctx of
                  None \<Rightarrow> \<lparr>to_owner = sent, to_ctx = [], raised = None\<rparr>
                | Some c \<Rightarrow>
                    let description =
                      ''An internal error has occured. The bot owner has been notified.\<newline>''
                      @ ''Error (for bot owner purposes): '' @ error_str error
                    in
                      if ctx_kind c = CommandContext then
                        (case notice_raises c of
                           Some e \<Rightarrow> \<lparr>to_owner = sent, to_ctx = [], raised = Some e\<rparr>
                         | None \<Rightarrow>
                             \<lparr>to_owner = sent, to_ctx = [Reply description], raised = None\<rparr>)
                      else if ctx_kind c = Interaction then
                        (case notice_raises c of
                           Some e \<Rightarrow> \<lparr>to_owner = sent, to_ctx = [], raised = Some e\<rparr>
                         | None \<Rightarrow>
                             \<lparr>to_owner = sent, to_ctx = [Send description], raised = None\<rparr>)
                      else \<lparr>to_owner = sent, to_ctx = [], raised = None\<rparr>)))"

text \<open>
  Notions the statements about the pipeline use. A string is free of line ends; the text
  of the chunk that a group of lines becomes; the jump reference that precedes the chunks;
  the messages the call has to send to the owner for an unexpected error; the lines of a
  chunk between its opener line and its closer line.
\<close>

definition no_breaks :: "string \<Rightarrow> bool" where
  "no_breaks l = list_all (\<lambda>c. \<not> is_line_boundary c) l"

definition render_chunk :: "string list \<Rightarrow> string" where
  "render_chunk g = ''```py\<newline>'' @ join_lines g @ ''\<newline>```''"

definition jump_reference :: "error_ctx option \<Rightarrow> string list" where
  "jump_reference ctx =
     (case ctx of
        None \<Rightarrow> []
      | Some c \<Rightarrow> (case jump_url c of None \<Rightarrow> [] | Some url \<Rightarrow> [''Error on: '' @ url]))"

definition line_groups :: "raised_error \<Rightarrow> string list list" where
  "line_groups error = slices 20 (splitlines (error_format error))"

definition owner_messages :: "raised_error \<Rightarrow> error_ctx option \<Rightarrow> string list" where
  "owner_messages error ctx = jump_reference ctx @ map render_chunk (line_groups error)"

definition chunk_lines :: "string \<Rightarrow> string list" where
  "chunk_lines c = butlast (tl (splitlines c))"

text \<open>
  Re-joining as the specification words it: the opener and the closer are removed from
  every chunk, and the chunks are concatenated in order.
\<close>

definition strip_delimiters :: "string \<Rightarrow> string" where
  "strip_delimiters c =
     (let c1 = (if take 6 c = ''```py\<newline>'' then drop 6 c else c)
      in if 4 \<le> length c1 \<and> drop (length c1 - 4) c1 = ''\<newline>```''
         then take (length c1 - 4) c1 else c1)"

definition rejoin :: "string list \<Rightarrow> string" where
  "rejoin cs = concat (map strip_delimiters cs)"

section \<open>The admission gate\<close>

text \<open>
  C2. While the readiness flag is false or the init-load flag is true, every command is
  rejected, whoever the author is. Once both phases have cleared, the operator is accepted
  in the restricted community whatever the command, and a non-operator in any other
  community is accepted. A non-operator in the restricted community is rejected for a
  command that is neither \<open>help\<close> nor \<open>ping\<close>, in every phase.
\<close>

theorem global_checks_admission:
  "(\<not> bot_is_ready ctx \<or> bot_init_load ctx \<longrightarrow> global_checks dev ctx = Inr False)
   \<and> (bot_is_ready ctx \<and> \<not> bot_init_load ctx \<and> ctx_guild ctx = Some dev
        \<and> bot_owner ctx = Some (ctx_author ctx)
      \<longrightarrow> global_checks dev ctx = Inr True)
   \<and> (ctx_guild ctx = Some dev \<and> bot_owner ctx = Some oid \<and> ctx_author ctx \<noteq> oid
        \<and> command_qualified_name ctx \<noteq> ''help'' \<and> command_qualified_name ctx \<noteq> ''ping''
      \<longrightarrow> global_checks dev ctx = Inr False)
   \<and> (bot_is_ready ctx \<and> \<not> bot_init_load ctx \<and> ctx_guild ctx = Some g \<and> g \<noteq> dev
        \<and> bot_owner ctx = Some oid \<and> ctx_author ctx \<noteq> oid
      \<longrightarrow> global_checks dev ctx = Inr True)"
  by (auto simp: global_checks_def)

theorem global_checks_admission_witness:
  "global_checks 7
     \<lparr>bot_is_ready = True, bot_init_load = True, bot_owner = None, ctx_guild = Some 7,
      ctx_author = 1, command_qualified_name = ''kick''\<rparr> = Inr False
   \<and> global_checks 7
     \<lparr>bot_is_ready = True, bot_init_load = False, bot_owner = Some 1, ctx_guild = Some 7,
      ctx_author = 1, command_qualified_name = ''kick''\<rparr> = Inr True
   \<and> global_checks 7
     \<lparr>bot_is_ready = True, bot_init_load = False, bot_owner = Some 1, ctx_guild = Some 7,
      ctx_author = 2, command_qualified_name = ''kick''\<rparr> = Inr False
   \<and> global_checks 7
     \<lparr>bot_is_ready = True, bot_init_load = False, bot_owner = Some 1, ctx_guild = Some 8,
      ctx_author = 2, command_qualified_name = ''kick''\<rparr> = Inr True"
  using
    global_checks_admission [where dev = 7 and ctx =
      "\<lparr>bot_is_ready = True, bot_init_load = True, bot_owner = None, ctx_guild = Some 7,
        ctx_author = 1, command_qualified_name = ''kick''\<rparr>"]
    global_checks_admission [where dev = 7 and ctx =
      "\<lparr>bot_is_ready = True, bot_init_load = False, bot_owner = Some 1, ctx_guild = Some 7,
        ctx_author = 1, command_qualified_name = ''kick''\<rparr>"]
    global_checks_admission [where dev = 7 and oid = 1 and ctx =
      "\<lparr>bot_is_ready = True, bot_init_load = False, bot_owner = Some 1, ctx_guild = Some 7,
        ctx_author = 2, command_qualified_name = ''kick''\<rparr>"]
    global_checks_admission [where dev = 7 and oid = 1 and g = 8 and ctx =
      "\<lparr>bot_is_ready = True, bot_init_load = False, bot_owner = Some 1, ctx_guild = Some 8,
        ctx_author = 2, command_qualified_name = ''kick''\<rparr>"]
  by simp

text \<open>
  C4, as stated: the gate accepts every context whose author is the operator. It does
  not: the readiness, init-load and community tests come first, so the operator's direct
  message is rejected.
\<close>

theorem operator_direct_message_rejected:
  "global_checks 7
     \<lparr>bot_is_ready = True, bot_init_load = False, bot_owner = Some 1, ctx_guild = None,
      ctx_author = 1, command_qualified_name = ''ping''\<rparr> = Inr False"
  by (simp add: global_checks_def)

text \<open>
  C4, amended: for a context whose author is the operator, the gate accepts exactly when
  the bot is ready, the init-load phase is over and the message has a community; the
  community and the command play no part.
\<close>

theorem global_checks_operator:
  "bot_owner ctx = Some (ctx_author ctx) \<Longrightarrow>
   global_checks dev ctx =
     Inr (bot_is_ready ctx \<and> \<not> bot_init_load ctx \<and> ctx_guild ctx \<noteq> None)"
  by (auto simp: global_checks_def split: option.splits)

theorem global_checks_operator_witness:
  "global_checks 7
     \<lparr>bot_is_ready = True, bot_init_load = False, bot_owner = Some 1, ctx_guild = Some 3,
      ctx_author = 1, command_qualified_name = ''kick''\<rparr> = Inr True"
  using global_checks_operator [where dev = 7 and ctx =
      "\<lparr>bot_is_ready = True, bot_init_load = False, bot_owner = Some 1, ctx_guild = Some 3,
        ctx_author = 1, command_qualified_name = ''kick''\<rparr>"]
  by simp

section \<open>The prefix resolver\<close>

lemma realms_snd: "snd (realms_playerlist_prefixes store b msg) = snd (get_prefixes store b msg)"
  by (simp add: realms_playerlist_prefixes_def split: prod.splits sum.splits)

lemma get_prefixes_user: "user (snd (get_prefixes store b msg)) = user b"
  by (simp add: get_prefixes_def defaultdict_getitem_def split: option.splits sum.splits)

lemma mention_prefixes_cong: "user b' = user b \<Longrightarrow> mention_prefixes b' = mention_prefixes b"
  by (simp add: mention_prefixes_def)

lemma get_prefixes_raises:
  "fst (get_prefixes store b msg) = Inl e \<Longrightarrow> \<exists>gid. msg_guild msg = Some gid \<and> store gid = Inl e"
  by (auto simp: get_prefixes_def defaultdict_getitem_def
      split: option.splits if_splits sum.splits)

text \<open>
  C1, as stated: for a message whose community is missing, the custom prefixes fall back
  to the single prefix \<open>!?\<close>. They do not: \<open>_get_prefixes\<close> returns the empty set for
  such a message before anything can raise, so the result is the mention prefixes alone,
  even against a store that would raise \<open>AttributeError\<close>.
\<close>

theorem no_community_no_default_prefix:
  "fst (realms_playerlist_prefixes (\<lambda>k. Inl AttributeError)
     \<lparr>user = \<lparr>user_id = 99, user_mention = ''<@99>''\<rparr>, cached_prefixes = Map.empty,
      store_fetches = 0\<rparr> \<lparr>msg_guild = None\<rparr>) = Inr {''<@99> '', ''<@!99> ''}
   \<and> ''!?'' \<notin> {''<@99> '', ''<@!99> ''}"
  by (simp add: realms_playerlist_prefixes_def get_prefixes_def mention_prefixes_def
      str_int_def str_nat.simps digit_char_def)

text \<open>
  C1, amended. Whatever the message, when the lookup \<open>_get_prefixes\<close> returns a set or
  raises one of the five exceptions the handlers name, the resolver returns: no exception
  reaches the caller. Its result is the mention prefixes together with the custom
  prefixes, which are the looked-up set on success, the single prefix \<open>!?\<close> after
  \<open>AttributeError\<close>, and none after the four other exceptions; so both mention prefixes
  are in the result, which is not empty. The lookup raises only what the store raises for
  the community of a message that has one: for a message with no community the lookup
  returns the empty set, and the result is the mention prefixes alone.
\<close>

theorem realms_playerlist_prefixes_never_raises:
  assumes "fst (get_prefixes store b msg) = outcome"
    and "case outcome of Inr custom \<Rightarrow> True | Inl e \<Rightarrow> e \<in> set handled"
  shows "fst (realms_playerlist_prefixes store b msg) =
           Inr (mention_prefixes b \<union>
                (case outcome of
                   Inr custom \<Rightarrow> custom
                 | Inl e \<Rightarrow> if e = AttributeError then {''!?''} else {}))
         \<and> (\<exists>ps. fst (realms_playerlist_prefixes store b msg) = Inr ps
                \<and> user_mention (user b) @ '' '' \<in> ps
                \<and> ''<@!'' @ str_int (user_id (user b)) @ ''> '' \<in> ps
                \<and> ps \<noteq> {})
         \<and> (\<forall>e. outcome = Inl e \<longrightarrow> (\<exists>gid. msg_guild msg = Some gid \<and> store gid = Inl e))
         \<and> (msg_guild msg = None \<longrightarrow>
               outcome = Inr {}
               \<and> fst (realms_playerlist_prefixes store b msg) = Inr (mention_prefixes b))"
proof -
  have "fst (realms_playerlist_prefixes store b msg) =
           Inr (mention_prefixes b \<union>
                (case outcome of
                   Inr custom \<Rightarrow> custom
                 | Inl e \<Rightarrow> if e = AttributeError then {''!?''} else {}))
         \<and> (\<exists>ps. fst (realms_playerlist_prefixes store b msg) = Inr ps
                \<and> user_mention (user b) @ '' '' \<in> ps
                \<and> ''<@!'' @ str_int (user_id (user b)) @ ''> '' \<in> ps
                \<and> ps \<noteq> {})"
    using assms
    by (auto simp: realms_playerlist_prefixes_def handled_def mention_prefixes_def
        split: prod.splits sum.splits)
  moreover have "\<exists>gid. msg_guild msg = Some gid \<and> store gid = Inl e" if "outcome = Inl e" for e
    using assms(1) that by (simp add: get_prefixes_raises)
  moreover have "outcome = Inr {}
      \<and> fst (realms_playerlist_prefixes store b msg) = Inr (mention_prefixes b)"
    if "msg_guild msg = None"
    using assms(1) that by (auto simp: realms_playerlist_prefixes_def get_prefixes_def)
  ultimately show ?thesis
    by blast
qed

text \<open>
  C1, amended, for an empty cache: a message of community 42 against a store that raises
  \<open>AttributeError\<close>, one that times out and one that holds the prefix \<open>$\<close>; and a
  message with no community against the store that raises \<open>AttributeError\<close>.
\<close>

theorem realms_playerlist_prefixes_never_raises_witness:
  "fst (realms_playerlist_prefixes (\<lambda>k. Inl AttributeError)
     \<lparr>user = \<lparr>user_id = 99, user_mention = ''<@99>''\<rparr>, cached_prefixes = Map.empty,
      store_fetches = 0\<rparr> \<lparr>msg_guild = Some 42\<rparr>) = Inr {''<@99> '', ''<@!99> '', ''!?''}
   \<and> fst (realms_playerlist_prefixes (\<lambda>k. Inl TimeoutError)
     \<lparr>user = \<lparr>user_id = 99, user_mention = ''<@99>''\<rparr>, cached_prefixes = Map.empty,
      store_fetches = 0\<rparr> \<lparr>msg_guild = Some 42\<rparr>) = Inr {''<@99> '', ''<@!99> ''}
   \<and> fst (realms_playerlist_prefixes (\<lambda>k. Inr \<lparr>guild_id = k, prefixes = {''$''}\<rparr>)
     \<lparr>user = \<lparr>user_id = 99, user_mention = ''<@99>''\<rparr>, cached_prefixes = Map.empty,
      store_fetches = 0\<rparr> \<lparr>msg_guild = Some 42\<rparr>) = Inr {''<@99> '', ''<@!99> '', ''$''}
   \<and> fst (realms_playerlist_prefixes (\<lambda>k. Inl AttributeError)
     \<lparr>user = \<lparr>user_id = 99, user_mention = ''<@99>''\<rparr>, cached_prefixes = Map.empty,
      store_fetches = 0\<rparr> \<lparr>msg_guild = None\<rparr>) = Inr {''<@99> '', ''<@!99> ''}"
  using
    realms_playerlist_prefixes_never_raises [where store = "\<lambda>k. Inl AttributeError"
      and outcome = "Inl AttributeError" and msg = "\<lparr>msg_guild = Some 42\<rparr>"
      and b = "\<lparr>user = \<lparr>user_id = 99, user_mention = ''<@99>''\<rparr>,
        cached_prefixes = Map.empty, store_fetches = 0\<rparr>"]
    realms_playerlist_prefixes_never_raises [where store = "\<lambda>k. Inl TimeoutError"
      and outcome = "Inl TimeoutError" and msg = "\<lparr>msg_guild = Some 42\<rparr>"
      and b = "\<lparr>user = \<lparr>user_id = 99, user_mention = ''<@99>''\<rparr>,
        cached_prefixes = Map.empty, store_fetches = 0\<rparr>"]
    realms_playerlist_prefixes_never_raises
      [where store = "\<lambda>k. Inr \<lparr>guild_id = k, prefixes = {''$''}\<rparr>"
      and outcome = "Inr {''$''}" and msg = "\<lparr>msg_guild = Some 42\<rparr>"
      and b = "\<lparr>user = \<lparr>user_id = 99, user_mention = ''<@99>''\<rparr>,
        cached_prefixes = Map.empty, store_fetches = 0\<rparr>"]
    realms_playerlist_prefixes_never_raises [where store = "\<lambda>k. Inl AttributeError"
      and outcome = "Inr {}" and msg = "\<lparr>msg_guild = None\<rparr>"
      and b = "\<lparr>user = \<lparr>user_id = 99, user_mention = ''<@99>''\<rparr>,
        cached_prefixes = Map.empty, store_fetches = 0\<rparr>"]
  by (simp add: get_prefixes_def defaultdict_getitem_def handled_def mention_prefixes_def
      str_int_def str_nat.simps digit_char_def insert_commute)

text \<open>
  C7. For a message with no community the resolver returns exactly the two mention
  prefixes, a set that is not empty, whatever the cache and the store hold; the bot's
  state is returned as it was, so the cache is not touched and no fetch is counted.
\<close>

theorem no_guild_mention_only:
  "msg_guild msg = None \<Longrightarrow>
   realms_playerlist_prefixes store b msg = (Inr (mention_prefixes b), b)
   \<and> mention_prefixes b =
       {user_mention (user b) @ '' '', ''<@!'' @ str_int (user_id (user b)) @ ''> ''}
   \<and> mention_prefixes b \<noteq> {}"
  by (simp add: realms_playerlist_prefixes_def get_prefixes_def mention_prefixes_def)

text \<open>
  C7 at a direct message, with a prefix cached for community 42 and a store that would
  answer.
\<close>

theorem no_guild_mention_only_witness:
  "realms_playerlist_prefixes (\<lambda>k. Inr \<lparr>guild_id = k, prefixes = {''$''}\<rparr>)
     \<lparr>user = \<lparr>user_id = 99, user_mention = ''<@99>''\<rparr>, cached_prefixes = [42 \<mapsto> {''$''}],
      store_fetches = 0\<rparr> \<lparr>msg_guild = None\<rparr> =
   (Inr {''<@99> '', ''<@!99> ''},
    \<lparr>user = \<lparr>user_id = 99, user_mention = ''<@99>''\<rparr>, cached_prefixes = [42 \<mapsto> {''$''}],
      store_fetches = 0\<rparr>)"
  using no_guild_mention_only [where store = "\<lambda>k. Inr \<lparr>guild_id = k, prefixes = {''$''}\<rparr>"
      and msg = "\<lparr>msg_guild = None\<rparr>"
      and b = "\<lparr>user = \<lparr>user_id = 99, user_mention = ''<@99>''\<rparr>,
        cached_prefixes = [42 \<mapsto> {''$''}], store_fetches = 0\<rparr>"]
  by (simp add: mention_prefixes_def str_int_def str_nat.simps digit_char_def)

text \<open>
  C5. A message of a community with no cached prefixes, while the store reports that the
  record does not exist: the resolver returns the mention prefixes alone, as a value;
  afterwards the cache reads for every community as it did before (for this one, the
  empty set that the dictionary supplies by default); and once the store holds the
  record, the next resolution for the community fetches it and returns its prefixes.
\<close>

theorem not_found_leaves_cache_unpopulated:
  assumes "msg_guild msg = Some gid"
    and "fst (defaultdict_getitem (cached_prefixes b) gid) = {}"
    and "store gid = Inl DoesNotExist"
  shows "fst (realms_playerlist_prefixes store b msg) = Inr (mention_prefixes b)
    \<and> (\<forall>k. fst (defaultdict_getitem
                 (cached_prefixes (snd (realms_playerlist_prefixes store b msg))) k)
             = fst (defaultdict_getitem (cached_prefixes b) k))
    \<and> cached_prefixes (snd (realms_playerlist_prefixes store b msg)) gid = Some {}
    \<and> (store' gid = Inr config \<longrightarrow>
         realms_playerlist_prefixes store' (snd (realms_playerlist_prefixes store b msg)) msg =
           (Inr (mention_prefixes b \<union> prefixes config),
            b\<lparr>cached_prefixes := (cached_prefixes b)(gid \<mapsto> prefixes config),
              store_fetches := store_fetches b + 2\<rparr>))"
  using assms
  by (auto simp: realms_playerlist_prefixes_def get_prefixes_def defaultdict_getitem_def
      mention_prefixes_def
      split: option.splits)

text \<open>
  C5 at the message \<open>!?ping\<close> of community 42: the store has no record, then holds one
  with the prefix \<open>$\<close>.
\<close>

theorem not_found_leaves_cache_unpopulated_witness:
  "fst (realms_playerlist_prefixes (\<lambda>k. Inl DoesNotExist)
     \<lparr>user = \<lparr>user_id = 99, user_mention = ''<@99>''\<rparr>, cached_prefixes = Map.empty,
      store_fetches = 0\<rparr> \<lparr>msg_guild = Some 42\<rparr>) = Inr {''<@99> '', ''<@!99> ''}
   \<and> fst (realms_playerlist_prefixes (\<lambda>k. Inr \<lparr>guild_id = k, prefixes = {''$''}\<rparr>)
       (snd (realms_playerlist_prefixes (\<lambda>k. Inl DoesNotExist)
         \<lparr>user = \<lparr>user_id = 99, user_mention = ''<@99>''\<rparr>, cached_prefixes = Map.empty,
          store_fetches = 0\<rparr> \<lparr>msg_guild = Some 42\<rparr>))
       \<lparr>msg_guild = Some 42\<rparr>) = Inr {''<@99> '', ''<@!99> '', ''$''}"
  using not_found_leaves_cache_unpopulated [where store = "\<lambda>k. Inl DoesNotExist"
      and store' = "\<lambda>k. Inr \<lparr>guild_id = k, prefixes = {''$''}\<rparr>"
      and config = "\<lparr>guild_id = 42, prefixes = {''$''}\<rparr>"
      and gid = 42 and msg = "\<lparr>msg_guild = Some 42\<rparr>"
      and b = "\<lparr>user = \<lparr>user_id = 99, user_mention = ''<@99>''\<rparr>,
        cached_prefixes = Map.empty, store_fetches = 0\<rparr>"]
  by (simp add: defaultdict_getitem_def mention_prefixes_def
      str_int_def str_nat.simps digit_char_def insert_commute)

lemma cache_entry_kept:
  "cached_prefixes b gid = Some ps \<Longrightarrow> ps \<noteq> {} \<Longrightarrow>
   cached_prefixes (snd (realms_playerlist_prefixes store b msg)) gid = Some ps"
  by (auto simp: realms_snd get_prefixes_def defaultdict_getitem_def
      split: option.splits sum.splits)

lemma resolve_all_cache_entry_kept:
  "cached_prefixes b gid = Some ps \<Longrightarrow> ps \<noteq> {} \<Longrightarrow>
   cached_prefixes (resolve_all b calls) gid = Some ps"
  by (induction b calls rule: resolve_all.induct) (auto simp: cache_entry_kept)

lemma resolve_all_user: "user (resolve_all b calls) = user b"
  by (induction b calls rule: resolve_all.induct) (auto simp: realms_snd get_prefixes_user)

lemma cache_hit:
  "cached_prefixes b gid = Some ps \<Longrightarrow> ps \<noteq> {} \<Longrightarrow> msg_guild msg = Some gid \<Longrightarrow>
   realms_playerlist_prefixes store b msg = (Inr (mention_prefixes b \<union> ps), b)"
  by (simp add: realms_playerlist_prefixes_def get_prefixes_def defaultdict_getitem_def)

lemma populate:
  "msg_guild msg = Some gid \<Longrightarrow> fst (defaultdict_getitem (cached_prefixes b) gid) = {} \<Longrightarrow>
   store gid = Inr config \<Longrightarrow>
   realms_playerlist_prefixes store b msg =
     (Inr (mention_prefixes b \<union> prefixes config),
      b\<lparr>cached_prefixes := (cached_prefixes b)(gid \<mapsto> prefixes config),
        store_fetches := store_fetches b + 1\<rparr>)"
  by (auto simp: realms_playerlist_prefixes_def get_prefixes_def defaultdict_getitem_def
      split: option.splits)

text \<open>
  C6, as stated: once a resolution has fetched a community's configuration and stored
  its prefix set in the cache, no later resolution for the community fetches again. It
  fails for a configuration whose prefix set is empty: the stored set is falsy, so the
  next resolution takes it for a miss. Here the first resolution fetches and stores the
  empty set, and the second one fetches again.
\<close>

theorem empty_prefix_set_fetched_again:
  "cached_prefixes
     (snd (realms_playerlist_prefixes (\<lambda>k. Inr \<lparr>guild_id = k, prefixes = {}\<rparr>)
       \<lparr>user = \<lparr>user_id = 99, user_mention = ''<@99>''\<rparr>, cached_prefixes = Map.empty,
        store_fetches = 0\<rparr> \<lparr>msg_guild = Some 42\<rparr>)) 42 = Some {}
   \<and> store_fetches
     (snd (realms_playerlist_prefixes (\<lambda>k. Inr \<lparr>guild_id = k, prefixes = {}\<rparr>)
       \<lparr>user = \<lparr>user_id = 99, user_mention = ''<@99>''\<rparr>, cached_prefixes = Map.empty,
        store_fetches = 0\<rparr> \<lparr>msg_guild = Some 42\<rparr>)) = 1
   \<and> store_fetches
     (snd (realms_playerlist_prefixes (\<lambda>k. Inr \<lparr>guild_id = k, prefixes = {}\<rparr>)
       (snd (realms_playerlist_prefixes (\<lambda>k. Inr \<lparr>guild_id = k, prefixes = {}\<rparr>)
         \<lparr>user = \<lparr>user_id = 99, user_mention = ''<@99>''\<rparr>, cached_prefixes = Map.empty,
          store_fetches = 0\<rparr> \<lparr>msg_guild = Some 42\<rparr>))
       \<lparr>msg_guild = Some 42\<rparr>)) = 2"
  by (simp add: realms_snd get_prefixes_def defaultdict_getitem_def)

text \<open>
  C6, amended: once a resolution for a community has fetched its configuration and
  stored a prefix set that is not empty, then after any further resolutions (for any
  messages, whatever the store answers) a resolution for that community returns the
  mention prefixes together with the stored set and leaves the bot's state as it was: no
  fetch is counted. The populating resolution itself counts one fetch.
\<close>

theorem populated_cache_no_second_fetch:
  assumes "msg_guild msg = Some gid"
    and "fst (defaultdict_getitem (cached_prefixes b) gid) = {}"
    and "store gid = Inr config"
    and "prefixes config \<noteq> {}"
    and "msg_guild msg' = Some gid"
  shows "store_fetches (snd (realms_playerlist_prefixes store b msg)) = store_fetches b + 1
    \<and> realms_playerlist_prefixes store'
         (resolve_all (snd (realms_playerlist_prefixes store b msg)) calls) msg' =
        (Inr (mention_prefixes b \<union> prefixes config),
         resolve_all (snd (realms_playerlist_prefixes store b msg)) calls)"
proof -
  let ?b1 = "snd (realms_playerlist_prefixes store b msg)"
  let ?b2 = "resolve_all ?b1 calls"
  have b1: "?b1 = b\<lparr>cached_prefixes := (cached_prefixes b)(gid \<mapsto> prefixes config),
        store_fetches := store_fetches b + 1\<rparr>"
    using assms(1-3)
    by (simp add: populate [where store = store and gid = gid and config = config])
  then have "cached_prefixes ?b1 gid = Some (prefixes config)"
    by simp
  then have "cached_prefixes ?b2 gid = Some (prefixes config)"
    using assms(4) by (rule resolve_all_cache_entry_kept)
  then have "realms_playerlist_prefixes store' ?b2 msg' =
      (Inr (mention_prefixes ?b2 \<union> prefixes config), ?b2)"
    using assms(4,5) by (rule cache_hit)
  moreover have "mention_prefixes ?b2 = mention_prefixes b"
    by (rule mention_prefixes_cong) (simp add: resolve_all_user b1)
  ultimately show ?thesis
    using b1 by simp
qed

text \<open>
  C6, amended, at community 42 with the prefix \<open>$\<close>: after the populating resolution,
  a resolution for community 7 and one while the store has lost the record, a resolution
  for community 42 against a store that raises still returns the cached prefix, and the
  count stays at the two fetches made so far.
\<close>

theorem populated_cache_no_second_fetch_witness:
  "fst (realms_playerlist_prefixes (\<lambda>k. Inl OtherException)
     (resolve_all
       (snd (realms_playerlist_prefixes (\<lambda>k. Inr \<lparr>guild_id = k, prefixes = {''$''}\<rparr>)
         \<lparr>user = \<lparr>user_id = 99, user_mention = ''<@99>''\<rparr>, cached_prefixes = Map.empty,
          store_fetches = 0\<rparr> \<lparr>msg_guild = Some 42\<rparr>))
       [(\<lambda>k. Inl DoesNotExist, \<lparr>msg_guild = Some 7\<rparr>),
        (\<lambda>k. Inl DoesNotExist, \<lparr>msg_guild = Some 42\<rparr>)])
     \<lparr>msg_guild = Some 42\<rparr>) = Inr {''<@99> '', ''<@!99> '', ''$''}
   \<and> store_fetches (snd (realms_playerlist_prefixes (\<lambda>k. Inl OtherException)
     (resolve_all
       (snd (realms_playerlist_prefixes (\<lambda>k. Inr \<lparr>guild_id = k, prefixes = {''$''}\<rparr>)
         \<lparr>user = \<lparr>user_id = 99, user_mention = ''<@99>''\<rparr>, cached_prefixes = Map.empty,
          store_fetches = 0\<rparr> \<lparr>msg_guild = Some 42\<rparr>))
       [(\<lambda>k. Inl DoesNotExist, \<lparr>msg_guild = Some 7\<rparr>),
        (\<lambda>k. Inl DoesNotExist, \<lparr>msg_guild = Some 42\<rparr>)])
     \<lparr>msg_guild = Some 42\<rparr>)) = 2"
  using populated_cache_no_second_fetch
     [where store = "\<lambda>k. Inr \<lparr>guild_id = k, prefixes = {''$''}\<rparr>"
      and store' = "\<lambda>k. Inl OtherException"
      and config = "\<lparr>guild_id = 42, prefixes = {''$''}\<rparr>"
      and gid = 42 and msg = "\<lparr>msg_guild = Some 42\<rparr>" and msg' = "\<lparr>msg_guild = Some 42\<rparr>"
      and calls = "[(\<lambda>k. Inl DoesNotExist, \<lparr>msg_guild = Some 7\<rparr>),
        (\<lambda>k. Inl DoesNotExist, \<lparr>msg_guild = Some 42\<rparr>)]"
      and b = "\<lparr>user = \<lparr>user_id = 99, user_mention = ''<@99>''\<rparr>,
        cached_prefixes = Map.empty, store_fetches = 0\<rparr>"]
  by (simp add: realms_snd get_prefixes_def defaultdict_getitem_def mention_prefixes_def
      str_int_def str_nat.simps digit_char_def insert_commute)

section \<open>The invocation context\<close>

lemma fetch_config_memoized:
  "rc_guild_config self = Some config \<Longrightarrow>
   fetch_config_calls self stores = (replicate (length stores) (Inr config), self)"
  by (induction stores) (auto simp: fetch_config_def)

text \<open>
  C9, as stated: in every context the first call of \<open>fetch_config\<close> returns the
  configuration, and all the calls together fetch at most once. It fails while the store
  has no record: each call fetches, raises \<open>DoesNotExist\<close> and memoizes nothing. Here two
  calls on one context make two fetches.
\<close>

theorem fetch_config_failed_fetch_repeats:
  "fetch_config_calls \<lparr>rc_guild = Some 42, rc_guild_config = None, rc_store_fetches = 0\<rparr>
     [\<lambda>k. Inl DoesNotExist, \<lambda>k. Inl DoesNotExist] =
   ([Inl DoesNotExist, Inl DoesNotExist],
    \<lparr>rc_guild = Some 42, rc_guild_config = None, rc_store_fetches = 2\<rparr>)"
  by (simp add: fetch_config_def)

text \<open>
  C9, amended: in a context that has a community and nothing memoized, when the store
  answers the first call with the configuration, that call fetches once, memoizes the
  configuration and returns it, and every later call on the context returns it without a
  fetch, whatever the store answers then: any number of calls make one fetch.
\<close>

theorem fetch_config_one_round_trip:
  assumes "rc_guild_config self = None"
    and "rc_guild self = Some gid"
    and "store gid = Inr config"
  shows "fetch_config_calls self (store # stores) =
           (replicate (Suc (length stores)) (Inr config),
            self\<lparr>rc_guild_config := Some config,
                 rc_store_fetches := rc_store_fetches self + 1\<rparr>)"
  using assms by (simp add: fetch_config_def fetch_config_memoized)

text \<open>
  C9, amended, at community 42: three calls, the store losing the record after the first.
\<close>

theorem fetch_config_one_round_trip_witness:
  "fetch_config_calls \<lparr>rc_guild = Some 42, rc_guild_config = None, rc_store_fetches = 0\<rparr>
     [\<lambda>k. Inr \<lparr>guild_id = k, prefixes = {''!?''}\<rparr>, \<lambda>k. Inl DoesNotExist,
      \<lambda>k. Inl TimeoutError] =
   ([Inr \<lparr>guild_id = 42, prefixes = {''!?''}\<rparr>, Inr \<lparr>guild_id = 42, prefixes = {''!?''}\<rparr>,
     Inr \<lparr>guild_id = 42, prefixes = {''!?''}\<rparr>],
    \<lparr>rc_guild = Some 42, rc_guild_config = Some \<lparr>guild_id = 42, prefixes = {''!?''}\<rparr>,
     rc_store_fetches = 1\<rparr>)"
  using fetch_config_one_round_trip
     [where self = "\<lparr>rc_guild = Some 42, rc_guild_config = None, rc_store_fetches = 0\<rparr>"
      and gid = 42 and store = "\<lambda>k. Inr \<lparr>guild_id = k, prefixes = {''!?''}\<rparr>"
      and config = "\<lparr>guild_id = 42, prefixes = {''!?''}\<rparr>"
      and stores = "[\<lambda>k. Inl DoesNotExist, \<lambda>k. Inl TimeoutError]"]
  by (simp add: numeral_3_eq_3)

section \<open>The embed validator\<close>

lemma longer_than_at_most: "longer_than x n = (\<not> at_most x n)"
  by (auto simp: longer_than_def at_most_def split: option.splits)

lemma fields_check_list_all:
  "fields_check fs =
     list_all (\<lambda>f. length (field_name f) \<le> 1024 \<and> length (field_value f) \<le> 2048) fs"
  by (induction fs) auto

text \<open>
  C10. \<open>embed_check\<close> returns true exactly when every size ceiling is respected. In
  particular a payload whose description has 4097 characters is rejected, and a payload
  that is within the ceilings apart from its description is accepted with a description
  of 4096 characters.
\<close>

theorem embed_check_limits:
  "embed_check e = embed_within_limits e
   \<and> (length d = 4097 \<longrightarrow> \<not> embed_check (e\<lparr>description := Some d\<rparr>))
   \<and> (embed_within_limits (e\<lparr>description := None\<rparr>) \<and> length d' = 4096
        \<longrightarrow> embed_check (e\<lparr>description := Some d'\<rparr>))"
  by (auto simp: embed_check_def embed_within_limits_def longer_than_at_most
      fields_check_list_all at_most_def split: option.splits)

text \<open>
  C10 at two payloads that differ in the description (4097 and 4096 characters) and in
  the total length it makes.
\<close>

theorem embed_check_limits_witness:
  "\<not> embed_check \<lparr>embed_len = 4097, title = None,
       description = Some (replicate 4097 CHR ''a''),
       author = None, footer = None, embed_fields = []\<rparr>
   \<and> embed_check \<lparr>embed_len = 4096, title = None,
       description = Some (replicate 4096 CHR ''a''),
       author = None, footer = None, embed_fields = []\<rparr>"
  using
    embed_check_limits [where d = "replicate 4097 CHR ''a''" and d' = "replicate 4096 CHR ''a''"
     and e = "\<lparr>embed_len = 4097, title = None, description = None,
       author = None, footer = None, embed_fields = []\<rparr>"]
    embed_check_limits [where d = "replicate 4097 CHR ''a''" and d' = "replicate 4096 CHR ''a''"
     and e = "\<lparr>embed_len = 4096, title = None, description = None,
       author = None, footer = None, embed_fields = []\<rparr>"]
  by (simp add: embed_within_limits_def at_most_def)

section \<open>The error pipeline\<close>

subsection \<open>Slices\<close>

lemma slices_concat_take:
  "concat (map (\<lambda>i. take n (drop (i * n) xs)) [0 ..< k]) = take (k * n) xs"
proof (induction k)
  case 0
  show ?case by simp
next
  case (Suc k)
  have "take (k * n) xs @ take n (drop (k * n) xs) = take (k * n + n) xs"
    by (simp add: take_add)
  with Suc show ?case by (simp add: add.commute)
qed

lemma slice_index_bound:
  assumes "0 < n" and "i < (m + n - 1) div n"
  shows "i * n < (m::nat)"
proof -
  have "\<not> (m + n - 1) div n < Suc i"
    using assms(2) by simp
  then have "\<not> m + n - 1 < Suc i * n"
    using assms(1) by (simp add: div_less_iff_less_mult)
  then show ?thesis
    using assms(1) by simp
qed

lemma slices_cover:
  assumes "0 < n"
  shows "length xs \<le> ((length xs + n - 1) div n) * n"
proof -
  have "(length xs + n - 1) mod n < n"
    using assms by simp
  moreover have "(length xs + n - 1) div n * n + (length xs + n - 1) mod n = length xs + n - 1"
    by simp
  ultimately show ?thesis
    by linarith
qed

lemma concat_slices: "0 < n \<Longrightarrow> concat (slices n xs) = xs"
  using slices_cover [of n xs] by (simp add: slices_def slices_concat_take)

lemma slices_sizes:
  assumes "0 < n" and "g \<in> set (slices n xs)"
  shows "g \<noteq> [] \<and> length g \<le> n"
proof -
  from assms(2) obtain i where i: "i < (length xs + n - 1) div n" "g = take n (drop (i * n) xs)"
    by (auto simp: slices_def)
  from slice_index_bound [OF assms(1) i(1)] assms(1) i(2) show ?thesis
    by simp
qed

lemma slices_single: "slices 20 [x] = [[x]]"
  by (simp add: slices_def)

lemma line_split_slices: "line_split content 20 = Inr (slices 20 (splitlines content))"
  by (simp add: line_split_def Let_def)

subsection \<open>Wrapping and joining a chunk\<close>

lemma join_lines_append_last:
  "ls \<noteq> [] \<Longrightarrow>
   join_lines (ls[length ls - 1 := ls ! (length ls - 1) @ s]) = join_lines ls @ s"
proof (induction ls rule: join_lines.induct)
  case 1
  then show ?case by simp
next
  case (2 l)
  show ?case by simp
next
  case (3 l m ls)
  then show ?case by (cases ls) simp_all
qed

lemma join_lines_prepend_first:
  "ls \<noteq> [] \<Longrightarrow> join_lines (ls[0 := s @ ls ! 0]) = s @ join_lines ls"
  by (induction ls rule: join_lines.induct) simp_all

lemma wrap_chunk_render:
  "g \<noteq> [] \<Longrightarrow> \<exists>g'. wrap_chunk g = Inr g' \<and> join_lines g' = render_chunk g"
proof -
  assume g: "g \<noteq> []"
  let ?chunk1 = "g[0 := ''```py\<newline>'' @ g ! 0]"
  let ?chunk2 = "?chunk1[length ?chunk1 - 1 := ?chunk1 ! (length ?chunk1 - 1) @ ''\<newline>```'']"
  have "?chunk1 \<noteq> []"
    using g by simp
  then have "join_lines ?chunk2 = join_lines ?chunk1 @ ''\<newline>```''"
    by (rule join_lines_append_last)
  also have "join_lines ?chunk1 = ''```py\<newline>'' @ join_lines g"
    using g by (rule join_lines_prepend_first)
  finally have "join_lines ?chunk2 = render_chunk g"
    by (simp add: render_chunk_def)
  moreover have "wrap_chunk g = Inr ?chunk2"
    using g by (simp add: wrap_chunk_def Let_def)
  ultimately show ?thesis
    by blast
qed

lemma wrap_chunks_render:
  "list_all (\<lambda>g. g \<noteq> []) gs \<Longrightarrow>
   \<exists>gs'. wrap_chunks gs = Inr gs' \<and> map join_lines gs' = map render_chunk gs"
proof (induction gs)
  case Nil
  show ?case by simp
next
  case (Cons g gs)
  then obtain gs' where gs': "wrap_chunks gs = Inr gs'" "map join_lines gs' = map render_chunk gs"
    by auto
  from Cons.prems obtain g' where g': "wrap_chunk g = Inr g'" "join_lines g' = render_chunk g"
    using wrap_chunk_render [of g] by auto
  show ?case
    using gs' g' by simp
qed

lemma error_chunks_render:
  "error_chunks content = Inr (map render_chunk (slices 20 (splitlines content)))"
proof -
  let ?gs = "slices 20 (splitlines content)"
  have "list_all (\<lambda>g. g \<noteq> []) ?gs"
    using slices_sizes [of 20 _ "splitlines content"] by (simp add: list_all_iff)
  then obtain gs' where "wrap_chunks ?gs = Inr gs'" "map join_lines gs' = map render_chunk ?gs"
    using wrap_chunks_render by blast
  then show ?thesis
    by (simp add: error_chunks_def line_split_slices)
qed

subsection \<open>Sending\<close>

lemma send_all_take: "\<exists>k. fst (send_all send cs) = take k cs"
proof (induction cs)
  case Nil
  show ?case by simp
next
  case (Cons c cs)
  then obtain k where k: "fst (send_all send cs) = take k cs"
    by blast
  show ?case
  proof (cases "send c")
    case None
    with k have "fst (send_all send (c # cs)) = take (Suc k) (c # cs)"
      by (cases "send_all send cs") simp
    then show ?thesis by blast
  next
    case (Some e)
    then have "fst (send_all send (c # cs)) = take 0 (c # cs)"
      by simp
    then show ?thesis by blast
  qed
qed

lemma send_all_ok: "\<forall>c \<in> set cs. send c = None \<Longrightarrow> send_all send cs = (cs, None)"
  by (induction cs) simp_all

lemma error_handle_owner_missing:
  "\<not> server_disconnected error \<Longrightarrow> owner b = None \<Longrightarrow>
   error_handle str_of_list b error ctx =
     \<lparr>to_owner = [], to_ctx = [], raised = Some AttributeError\<rparr>"
  by (simp add: error_handle_def error_chunks_render msg_to_owner_def)

lemma error_handle_to_owner:
  "\<not> server_disconnected error \<Longrightarrow> owner b = Some send \<Longrightarrow>
   to_owner (error_handle str_of_list b error ctx) =
     fst (send_all send (owner_messages error ctx))"
  by (auto simp: error_handle_def error_chunks_render msg_to_owner_def owner_messages_def
      line_groups_def jump_reference_def Let_def split: option.splits prod.splits)

lemma error_handle_sent_prefix:
  assumes "\<not> server_disconnected error"
  shows "\<exists>k. to_owner (error_handle str_of_list b error ctx) = take k (owner_messages error ctx)"
proof (cases "owner b")
  case None
  with assms have "to_owner (error_handle str_of_list b error ctx) =
      take 0 (owner_messages error ctx)"
    by (simp add: error_handle_owner_missing)
  then show ?thesis by blast
next
  case (Some send)
  with assms show ?thesis
    by (simp add: error_handle_to_owner send_all_take)
qed

lemma error_handle_all_sent:
  assumes "\<not> server_disconnected error" and "owner b = Some send"
    and "\<forall>c \<in> set (owner_messages error ctx). send c = None"
  shows "to_owner (error_handle str_of_list b error ctx) = owner_messages error ctx"
  using assms by (simp add: error_handle_to_owner send_all_ok)

subsection \<open>The lines of a chunk\<close>

lemma splitlines_from_no_breaks:
  "no_breaks l \<Longrightarrow> splitlines_from cur l = (if cur @ l = [] then [] else [cur @ l])"
  by (induction l arbitrary: cur) (auto simp: no_breaks_def is_line_boundary_def)

lemma splitlines_from_line:
  "no_breaks l \<Longrightarrow>
   splitlines_from cur (l @ CHR 0x0A # rest) = (cur @ l) # splitlines_from [] rest"
  by (induction l arbitrary: cur) (auto simp: no_breaks_def is_line_boundary_def)

lemma splitlines_from_lines_no_breaks:
  "no_breaks cur \<Longrightarrow> list_all no_breaks (splitlines_from cur s)"
  by (induction cur s rule: splitlines_from.induct) (auto simp: no_breaks_def)

lemma splitlines_no_breaks: "list_all no_breaks (splitlines s)"
  by (simp add: splitlines_def splitlines_from_lines_no_breaks no_breaks_def)

lemma splitlines_from_join_lines:
  "g \<noteq> [] \<Longrightarrow> list_all no_breaks g \<Longrightarrow>
   splitlines_from [] (join_lines g @ CHR 0x0A # rest) = g @ splitlines_from [] rest"
proof (induction g rule: join_lines.induct)
  case 1
  then show ?case by simp
next
  case (2 l)
  then show ?case by (simp add: splitlines_from_line)
next
  case (3 l m ls)
  then show ?case by (simp add: splitlines_from_line)
qed

lemma splitlines_render_chunk:
  assumes "g \<noteq> []" and "list_all no_breaks g"
  shows "splitlines (render_chunk g) = ''```py'' # g @ [''```'']"
proof -
  have "render_chunk g = ''```py'' @ CHR 0x0A # (join_lines g @ CHR 0x0A # ''```'')"
    by (simp add: render_chunk_def)
  moreover have "no_breaks ''```py''"
    by (simp add: no_breaks_def is_line_boundary_def)
  moreover have "splitlines_from [] ''```'' = [''```'']"
    by (simp add: is_line_boundary_def)
  ultimately show ?thesis
    using assms
    by (simp add: splitlines_def splitlines_from_line splitlines_from_join_lines
        del: append.simps)
qed

lemma line_group_facts:
  assumes "g \<in> set (line_groups error)"
  shows "g \<noteq> []" and "length g \<le> 20" and "list_all no_breaks g"
proof -
  from assms have g: "g \<in> set (slices 20 (splitlines (error_format error)))"
    by (simp add: line_groups_def)
  from slices_sizes [OF _ g] show "g \<noteq> []" and "length g \<le> 20"
    by simp_all
  have "set g \<subseteq> set (concat (slices 20 (splitlines (error_format error))))"
    using g by auto
  then have "set g \<subseteq> set (splitlines (error_format error))"
    by (simp add: concat_slices)
  then show "list_all no_breaks g"
    using splitlines_no_breaks [of "error_format error"] unfolding list_all_iff by blast
qed

lemma concat_line_groups: "concat (line_groups error) = splitlines (error_format error)"
  by (simp add: line_groups_def concat_slices)

lemma chunk_lines_render_chunk:
  "g \<noteq> [] \<Longrightarrow> list_all no_breaks g \<Longrightarrow> chunk_lines (render_chunk g) = g"
  by (simp add: chunk_lines_def splitlines_render_chunk butlast_append)

lemma splitlines_replicate_a:
  "0 < n \<Longrightarrow> splitlines (replicate n CHR ''a'') = [replicate n CHR ''a'']"
  by (simp add: splitlines_def splitlines_from_no_breaks no_breaks_def list_all_iff
      is_line_boundary_def)

lemma owner_messages_one_line:
  "0 < n \<Longrightarrow>
   owner_messages
     \<lparr>server_disconnected = False, error_format = replicate n CHR ''a'', error_str = s\<rparr> None =
   [''```py\<newline>'' @ replicate n CHR ''a'' @ ''\<newline>```'']"
  by (simp add: owner_messages_def jump_reference_def line_groups_def splitlines_replicate_a
      slices_single render_chunk_def)

subsection \<open>Sizes of the delivered chunks\<close>

text \<open>
  C3, as stated: every chunk delivered on the path of an unexpected error has at most
  1950 characters and at most 20 lines. Neither holds. The chunks are sent unsplit
  (\<open>split = False\<close>), so a rendered text of one line of 1950 characters is delivered as
  one chunk of 1960 characters; and the opener and the closer are lines of their own, so
  a rendered text of 20 lines is delivered as one chunk of 22 lines. (The owner is set and
  takes every message.)
\<close>

theorem error_chunk_over_limits:
  "map length (to_owner (error_handle (\<lambda>cs. []) \<lparr>owner = Some (\<lambda>c. None)\<rparr>
       \<lparr>server_disconnected = False, error_format = replicate 1950 CHR ''a'',
        error_str = ''boom''\<rparr> None)) = [1960]
   \<and> map (\<lambda>c. length (splitlines c)) (to_owner (error_handle (\<lambda>cs. [])
       \<lparr>owner = Some (\<lambda>c. None)\<rparr>
       \<lparr>server_disconnected = False, error_format = concat (replicate 20 ''a\<newline>''),
        error_str = ''boom''\<rparr> None)) = [22]"
proof -
  have "to_owner (error_handle (\<lambda>cs. []) \<lparr>owner = Some (\<lambda>c. None)\<rparr>
       \<lparr>server_disconnected = False, error_format = replicate 1950 CHR ''a'',
        error_str = ''boom''\<rparr> None) =
      [''```py\<newline>'' @ replicate 1950 CHR ''a'' @ ''\<newline>```'']"
    by (simp add: error_handle_all_sent [where send = "\<lambda>c. None"] owner_messages_one_line)
  moreover have "map (\<lambda>c. length (splitlines c)) (to_owner (error_handle (\<lambda>cs. [])
       \<lparr>owner = Some (\<lambda>c. None)\<rparr>
       \<lparr>server_disconnected = False, error_format = concat (replicate 20 ''a\<newline>''),
        error_str = ''boom''\<rparr> None)) = [22]"
    by code_simp
  ultimately show ?thesis
    by simp
qed

text \<open>
  C3, amended. For every unexpected error, whatever the owner's state: the messages sent
  to the owner are an initial part of the jump reference (when the context has one)
  followed by one chunk for every group of lines of the rendered text, and they are all
  of it when \<open>bot.owner\<close> is set and takes every one of them; while \<open>bot.owner\<close> is
  missing, the call raises \<open>AttributeError\<close> and sends nothing. The groups, in order,
  make up the lines of the rendered text, and each has between 1 and 20 of them; the chunk
  of a group is the opener line, the group's lines and the closer line, so it has at most
  22 lines, and it has 10 characters more than the group's lines joined by newlines. No
  number bounds the length of every chunk sent.
\<close>

theorem error_handle_chunk_lines:
  "(\<not> server_disconnected error \<longrightarrow>
      (\<exists>k. to_owner (error_handle str_of_list b error ctx) =
             take k (jump_reference ctx @ map render_chunk (line_groups error)))
      \<and> (owner b = None \<longrightarrow>
           error_handle str_of_list b error ctx =
             \<lparr>to_owner = [], to_ctx = [], raised = Some AttributeError\<rparr>)
      \<and> (\<forall>send. owner b = Some send
             \<and> (\<forall>c \<in> set (jump_reference ctx @ map render_chunk (line_groups error)).
                   send c = None)
           \<longrightarrow> to_owner (error_handle str_of_list b error ctx) =
                 jump_reference ctx @ map render_chunk (line_groups error)))
   \<and> concat (line_groups error) = splitlines (error_format error)
   \<and> (\<forall>g \<in> set (line_groups error).
         1 \<le> length g \<and> length g \<le> 20
         \<and> splitlines (render_chunk g) = ''```py'' # g @ [''```'']
         \<and> length (splitlines (render_chunk g)) \<le> 22
         \<and> length (render_chunk g) = 10 + length (join_lines g))
   \<and> (\<forall>n. \<exists>e. \<not> server_disconnected e
         \<and> (\<exists>c \<in> set (to_owner (error_handle str_of_list \<lparr>owner = Some (\<lambda>c. None)\<rparr> e None)).
               n < length c))"
proof -
  have sent: "\<exists>k. to_owner (error_handle str_of_list b error ctx) =
             take k (jump_reference ctx @ map render_chunk (line_groups error))"
    if "\<not> server_disconnected error"
    using error_handle_sent_prefix [OF that] by (simp add: owner_messages_def)
  have missing: "error_handle str_of_list b error ctx =
             \<lparr>to_owner = [], to_ctx = [], raised = Some AttributeError\<rparr>"
    if "\<not> server_disconnected error" "owner b = None"
    using that by (rule error_handle_owner_missing)
  have all_sent: "to_owner (error_handle str_of_list b error ctx) =
                 jump_reference ctx @ map render_chunk (line_groups error)"
    if "\<not> server_disconnected error" "owner b = Some send"
      "\<forall>c \<in> set (jump_reference ctx @ map render_chunk (line_groups error)). send c = None"
    for send
    using error_handle_all_sent [of error b send ctx str_of_list] that
    by (simp add: owner_messages_def)
  have groups: "1 \<le> length g \<and> length g \<le> 20
         \<and> splitlines (render_chunk g) = ''```py'' # g @ [''```'']
         \<and> length (splitlines (render_chunk g)) \<le> 22
         \<and> length (render_chunk g) = 10 + length (join_lines g)"
    if "g \<in> set (line_groups error)" for g
  proof -
    note g = line_group_facts [OF that]
    from g(1,3) have "splitlines (render_chunk g) = ''```py'' # g @ [''```'']"
      by (rule splitlines_render_chunk)
    moreover have "length (render_chunk g) = 10 + length (join_lines g)"
      by (simp add: render_chunk_def)
    ultimately show ?thesis
      using g(1,2) by (cases g) simp_all
  qed
  have unbounded: "\<exists>e. \<not> server_disconnected e
         \<and> (\<exists>c \<in> set (to_owner (error_handle str_of_list \<lparr>owner = Some (\<lambda>c. None)\<rparr> e None)).
               n < length c)" for n
  proof -
    let ?e = "\<lparr>server_disconnected = False, error_format = replicate (Suc n) CHR ''a'',
               error_str = []\<rparr>"
    have "to_owner (error_handle str_of_list \<lparr>owner = Some (\<lambda>c. None)\<rparr> ?e None) =
        owner_messages ?e None"
      by (rule error_handle_all_sent [where send = "\<lambda>c. None"]) simp_all
    also have "owner_messages ?e None =
        [''```py\<newline>'' @ replicate (Suc n) CHR ''a'' @ ''\<newline>```'']"
      by (rule owner_messages_one_line) simp
    finally have "\<not> server_disconnected ?e
         \<and> (\<exists>c \<in> set (to_owner (error_handle str_of_list \<lparr>owner = Some (\<lambda>c. None)\<rparr> ?e None)).
               n < length c)"
      by simp
    then show ?thesis by blast
  qed
  show ?thesis
    using sent missing all_sent groups unbounded concat_line_groups [of error] by blast
qed

text \<open>
  C3, amended, at a rendered text of two lines and a command context: with the owner set
  and taking every message, the jump reference and one chunk of four lines are sent; with
  the owner refusing the chunk, the jump reference alone; with the owner missing, nothing.
\<close>

theorem error_handle_chunk_lines_witness:
  "to_owner (error_handle (\<lambda>cs. []) \<lparr>owner = Some (\<lambda>c. None)\<rparr>
      \<lparr>server_disconnected = False, error_format = ''a\<newline>b\<newline>'', error_str = ''boom''\<rparr>
      (Some \<lparr>ctx_kind = CommandContext, jump_url = Some ''http://x'', notice_raises = None\<rparr>))
     = [''Error on: http://x'', ''```py\<newline>a\<newline>b\<newline>```'']
   \<and> map (\<lambda>c. length (splitlines c))
       [''Error on: http://x'', ''```py\<newline>a\<newline>b\<newline>```''] = [1, 4]
   \<and> to_owner (error_handle (\<lambda>cs. [])
      \<lparr>owner = Some (\<lambda>c. if c = ''Error on: http://x'' then None else Some OtherException)\<rparr>
      \<lparr>server_disconnected = False, error_format = ''a\<newline>b\<newline>'', error_str = ''boom''\<rparr>
      (Some \<lparr>ctx_kind = CommandContext, jump_url = Some ''http://x'', notice_raises = None\<rparr>))
     = [''Error on: http://x'']
   \<and> error_handle (\<lambda>cs. []) \<lparr>owner = None\<rparr>
      \<lparr>server_disconnected = False, error_format = ''a\<newline>b\<newline>'', error_str = ''boom''\<rparr>
      (Some \<lparr>ctx_kind = CommandContext, jump_url = Some ''http://x'', notice_raises = None\<rparr>)
     = \<lparr>to_owner = [], to_ctx = [], raised = Some AttributeError\<rparr>"
proof -
  let ?e = "\<lparr>server_disconnected = False, error_format = ''a\<newline>b\<newline>'', error_str = ''boom''\<rparr>"
  let ?ctx = "Some \<lparr>ctx_kind = CommandContext, jump_url = Some ''http://x'', notice_raises = None\<rparr>"
  from error_handle_chunk_lines [where str_of_list = "\<lambda>cs. []"
      and b = "\<lparr>owner = Some (\<lambda>c. None)\<rparr>" and error = ?e and ctx = ?ctx]
  have sent: "to_owner (error_handle (\<lambda>cs. []) \<lparr>owner = Some (\<lambda>c. None)\<rparr> ?e ?ctx) =
      jump_reference ?ctx @ map render_chunk (line_groups ?e)"
    by simp
  from error_handle_chunk_lines [where str_of_list = "\<lambda>cs. []"
      and b = "\<lparr>owner = None\<rparr>" and error = ?e and ctx = ?ctx]
  have missing: "error_handle (\<lambda>cs. []) \<lparr>owner = None\<rparr> ?e ?ctx =
      \<lparr>to_owner = [], to_ctx = [], raised = Some AttributeError\<rparr>"
    by simp
  have messages: "jump_reference ?ctx @ map render_chunk (line_groups ?e) =
      [''Error on: http://x'', ''```py\<newline>a\<newline>b\<newline>```'']"
    by (simp add: jump_reference_def line_groups_def slices_def splitlines_def
        is_line_boundary_def render_chunk_def)
  have refused: "to_owner (error_handle (\<lambda>cs. [])
      \<lparr>owner = Some (\<lambda>c. if c = ''Error on: http://x'' then None else Some OtherException)\<rparr>
      ?e ?ctx) = [''Error on: http://x'']"
    by (simp add: error_handle_def error_chunks_def line_split_def slices_def splitlines_def
        is_line_boundary_def wrap_chunk_def msg_to_owner_def)
  have lines: "map (\<lambda>c. length (splitlines c))
       [''Error on: http://x'', ''```py\<newline>a\<newline>b\<newline>```''] = [1, 4]"
    by (simp add: splitlines_def is_line_boundary_def)
  show ?thesis
    using sent missing messages refused lines by simp
qed

subsection \<open>Re-joining the delivered chunks\<close>

text \<open>
  C8, as stated: the delivered chunks, with the opener and the closer removed and joined
  in order, are the rendered text again. They are not: \<open>splitlines\<close> drops the line
  ends, and joining puts a newline back only between the lines of one chunk. The rendered
  text of the one line \<open>a\<close>, ended by a newline, comes back as \<open>a\<close>, whether the
  stripped chunks are concatenated or joined by newlines. (The owner is set and takes
  every message.)
\<close>

theorem rejoined_chunks_lose_newline:
  "error_handle (\<lambda>cs. []) \<lparr>owner = Some (\<lambda>c. None)\<rparr>
     \<lparr>server_disconnected = False, error_format = ''a\<newline>'', error_str = ''boom''\<rparr> None
     = \<lparr>to_owner = [''```py\<newline>a\<newline>```''], to_ctx = [], raised = None\<rparr>
   \<and> rejoin [''```py\<newline>a\<newline>```''] = ''a''
   \<and> join_lines (map strip_delimiters [''```py\<newline>a\<newline>```'']) = ''a''
   \<and> ''a'' \<noteq> ''a\<newline>''"
  by (simp add: error_handle_def error_chunks_def line_split_def slices_def splitlines_def
      is_line_boundary_def wrap_chunk_def msg_to_owner_def rejoin_def strip_delimiters_def)

text \<open>
  C8, amended. For every unexpected error: when \<open>bot.owner\<close> is set and takes every
  message the call has to send, what is sent to the owner is the jump reference (when the
  context has one) followed by chunks whose lines between the opener line and the closer
  line, taken in the order of delivery, are exactly the lines of the rendered text (as
  \<open>splitlines\<close> gives them: without their line ends). While \<open>bot.owner\<close> is missing,
  the call raises \<open>AttributeError\<close> and sends nothing.
\<close>

theorem delivered_lines_roundtrip:
  assumes "\<not> server_disconnected error"
  shows "(owner b = None \<longrightarrow>
           error_handle str_of_list b error ctx =
             \<lparr>to_owner = [], to_ctx = [], raised = Some AttributeError\<rparr>)
     \<and> (\<forall>send. owner b = Some send
            \<and> (\<forall>c \<in> set (jump_reference ctx @ map render_chunk (line_groups error)).
                  send c = None)
          \<longrightarrow> (\<exists>cs. to_owner (error_handle str_of_list b error ctx) = jump_reference ctx @ cs
                 \<and> concat (map chunk_lines cs) = splitlines (error_format error)))"
proof -
  have "chunk_lines (render_chunk g) = g" if "g \<in> set (line_groups error)" for g
    using line_group_facts(1,3) [OF that] by (rule chunk_lines_render_chunk)
  then have "map chunk_lines (map render_chunk (line_groups error)) = line_groups error"
    by (simp add: map_idI)
  then have lines: "concat (map chunk_lines (map render_chunk (line_groups error))) =
      splitlines (error_format error)"
    by (simp add: concat_line_groups)
  have "\<exists>cs. to_owner (error_handle str_of_list b error ctx) = jump_reference ctx @ cs
                 \<and> concat (map chunk_lines cs) = splitlines (error_format error)"
    if "owner b = Some send"
      "\<forall>c \<in> set (jump_reference ctx @ map render_chunk (line_groups error)). send c = None"
    for send
    using error_handle_all_sent [of error b send ctx str_of_list] assms that lines
    by (simp add: owner_messages_def)
  moreover have "error_handle str_of_list b error ctx =
             \<lparr>to_owner = [], to_ctx = [], raised = Some AttributeError\<rparr>" if "owner b = None"
    using assms that by (rule error_handle_owner_missing)
  ultimately show ?thesis
    by blast
qed

text \<open>
  C8, amended, at a rendered text of two lines and a command context, with the owner set
  and taking every message.
\<close>

theorem delivered_lines_roundtrip_witness:
  "to_owner (error_handle (\<lambda>cs. []) \<lparr>owner = Some (\<lambda>c. None)\<rparr>
      \<lparr>server_disconnected = False, error_format = ''a\<newline>b\<newline>'', error_str = ''boom''\<rparr>
      (Some \<lparr>ctx_kind = CommandContext, jump_url = Some ''http://x'', notice_raises = None\<rparr>))
     = [''Error on: http://x'', ''```py\<newline>a\<newline>b\<newline>```'']
   \<and> concat (map chunk_lines [''```py\<newline>a\<newline>b\<newline>```'']) = [''a'', ''b'']
   \<and> splitlines ''a\<newline>b\<newline>'' = [''a'', ''b'']"
  using delivered_lines_roundtrip [where str_of_list = "\<lambda>cs. []"
      and b = "\<lparr>owner = Some (\<lambda>c. None)\<rparr>"
      and error = "\<lparr>server_disconnected = False, error_format = ''a\<newline>b\<newline>'',
           error_str = ''boom''\<rparr>"
      and ctx = "Some \<lparr>ctx_kind = CommandContext, jump_url = Some ''http://x'',
           notice_raises = None\<rparr>"]
  by (simp add: error_handle_def error_chunks_def line_split_def slices_def splitlines_def
      is_line_boundary_def wrap_chunk_def msg_to_owner_def chunk_lines_def)

end
